theory Spec2Isabelle
  imports Complex_Main "HOL-Library.Word"
begin

section \<open>Values handed to the DSL functions\<close>

text \<open>
  A \<^verbatim>\<open>float32\<close> or \<^verbatim>\<open>float64\<close> value: a finite value by the rational number it
  denotes, or one of the special values. Converting a \<^verbatim>\<open>float32\<close> to \<^verbatim>\<open>float64\<close> keeps
  the denoted value, so both share this type.
\<close>

datatype fpval = Finite rat | NegZero | PosInf | NegInf | NaN

text \<open>
  The dynamic values of Go's \<^verbatim>\<open>interface{}\<close> that the functions of
  \<^verbatim>\<open>dsl/validation.go\<close> tell apart in their type switches. \<^verbatim>\<open>int\<close> and \<^verbatim>\<open>uint\<close> are
  taken at 64 bits. \<open>VMapVal\<close> and \<open>VArrayVal\<close> are values of the named types
  \<^verbatim>\<open>expr.MapVal\<close> and \<^verbatim>\<open>expr.ArrayVal\<close>; \<open>VMap\<close> and \<open>VSlice\<close> are plain
  \<^verbatim>\<open>map[interface{}]interface{}\<close> and \<^verbatim>\<open>[]interface{}\<close> values. \<open>VOther\<close> stands for a
  value of any other dynamic type (a struct, a channel, ...), by a description.
\<close>

datatype val =
    VNil
  | VBool bool
  | VInt "64 word" | VInt8 "8 word" | VInt16 "16 word" | VInt32 "32 word" | VInt64 "64 word"
  | VUint "64 word" | VUint8 "8 word" | VUint16 "16 word" | VUint32 "32 word" | VUint64 "64 word"
  | VFloat32 fpval | VFloat64 fpval
  | VString string
  | VMapVal "(val \<times> val) list" | VArrayVal "val list"
  | VMap "(val \<times> val) list" | VSlice "val list"
  | VOther string

section \<open>The expressions of package expr that the DSL touches\<close>

text \<open>
  Package \<^verbatim>\<open>expr\<close> is not part of the verified sources; its types are modelled by the
  fields and methods that \<^verbatim>\<open>dsl/validation.go\<close> and the file defining \<^verbatim>\<open>Meta\<close> use.
\<close>

datatype Kind =
    BooleanKind | IntKind | Int32Kind | Int64Kind | UIntKind | UInt32Kind | UInt64Kind
  | Float32Kind | Float64Kind | StringKind | BytesKind | ArrayKind | ObjectKind | MapKind
  | UserTypeKind | ResultTypeKind | AnyKind

text \<open>A \<^verbatim>\<open>DataType\<close>, by what its methods \<^verbatim>\<open>Kind()\<close> and \<^verbatim>\<open>Name()\<close> return.\<close>

record DataType =
  Kind :: Kind
  Name :: string

text \<open>
  \<^verbatim>\<open>ValidationExpr\<close>: a nil slice or pointer is \<open>None\<close>; \<^verbatim>\<open>Format\<close> and \<^verbatim>\<open>Pattern\<close> are
  strings whose zero value is the empty string. The fields carry the suffix \<open>_field\<close>
  where the DSL function of the same name is defined below.
\<close>

record ValidationExpr =
  Values :: "val list option"
  Format_field :: string
  Pattern_field :: string
  Minimum_field :: "fpval option"
  Maximum_field :: "fpval option"
  MinLength_field :: "64 word option"
  MaxLength_field :: "64 word option"
  Required_field :: "string list"

text \<open>\<^verbatim>\<open>MetaExpr\<close> is a Go map from string to string slice; the nil map is \<open>None\<close>.\<close>

type_synonym MetaExpr = "(string \<rightharpoonup> string list) option"

record AttributeExpr =
  Type :: "DataType option"
  Validation :: "ValidationExpr option"
  Meta_field :: MetaExpr

text \<open>
  What \<^verbatim>\<open>eval.Current()\<close> can return, by the cases the type switches of the DSL
  distinguish. \<open>Composite a\<close> is a value implementing \<^verbatim>\<open>expr.CompositeExpr\<close> whose
  \<^verbatim>\<open>Attribute()\<close> method returns the attribute \<open>a\<close>. \<open>ResultType a\<close> is a
  \<^verbatim>\<open>*expr.ResultTypeExpr\<close> carried by its embedded \<^verbatim>\<open>AttributeExpr\<close> (the value of
  \<^verbatim>\<open>def.AttributeExpr\<close> in \<^verbatim>\<open>Required\<close>), whose fields Go promotes to the result type.
  \<open>Method\<close>, \<open>Service\<close> and \<open>API\<close> are carried by their \<^verbatim>\<open>Meta\<close> field, the only one
  the DSL functions here touch. \<open>Other\<close> is any other expression, or none.
  \<open>Composite\<close> stands for the implementations of the interface other than the concrete
  types listed after it; should a result type implement the interface as well, the first
  case of the switch in \<^verbatim>\<open>Meta\<close> has the effect of the result type's own case, both
  writing the \<^verbatim>\<open>Meta\<close> field of the embedded attribute.
\<close>

datatype Expression =
    Composite AttributeExpr
  | Attribute AttributeExpr
  | ResultType AttributeExpr
  | Method MetaExpr
  | Service MetaExpr
  | API MetaExpr
  | Other

section \<open>Errors and the evaluation state\<close>

text \<open>
  One constructor per message the DSL functions report, carrying the arguments of the
  format string in their order.
\<close>

datatype error =
    ErrIncompatibleDSL
  | ErrIncompatibleValue val nat string
  | ErrInvalidFormat string
  | ErrInvalidPattern string string
  | ErrInvalidNumber val
  | ErrIncompatibleAttributeType string string string

text \<open>
  The state the DSL functions work on: the expression \<^verbatim>\<open>eval.Current()\<close> returns, which
  they mutate in place, and the errors reported so far, oldest first.
\<close>

record eval_state =
  Current :: Expression
  Errors :: "error list"

text \<open>
  Modelled from the spec: \<^verbatim>\<open>eval.ReportError\<close> is not part of the verified sources. It
  "does not return a value, does not throw -- it only accumulates".
\<close>

definition ReportError :: "error \<Rightarrow> eval_state \<Rightarrow> eval_state" where
  "ReportError e s = s\<lparr>Errors := Errors s @ [e]\<rparr>"

text \<open>
  Modelled from the spec: \<^verbatim>\<open>eval.IncompatibleDSL\<close> is not part of the verified sources.
  It reports the incompatible-target failure through the same collaborator.
\<close>

definition IncompatibleDSL :: "eval_state \<Rightarrow> eval_state" where
  "IncompatibleDSL s = ReportError ErrIncompatibleDSL s"

section \<open>Functions from outside the verified sources, as parameters\<close>

text \<open>
  The methods of package \<^verbatim>\<open>expr\<close> and the functions of Go's standard library that
  the DSL calls. \<open>ParseFloat\<close> is \<^verbatim>\<open>strconv.ParseFloat(v, 64)\<close>, \<open>None\<close> when it returns an
  error. \<open>regexp_Compile\<close> is \<^verbatim>\<open>regexp.Compile\<close>, \<open>Inl\<close> the text of the error it returns.
  \<open>ToMap\<close> and \<open>ToSlice\<close> are the methods of \<^verbatim>\<open>expr.MapVal\<close> and \<^verbatim>\<open>expr.ArrayVal\<close>, on
  the contents; their results have the plain map and slice types.
\<close>

record externals =
  IsCompatible :: "DataType \<Rightarrow> val \<Rightarrow> bool"
  IsSupportedValidationFormat :: "AttributeExpr \<Rightarrow> string \<Rightarrow> bool"
  ToMap :: "(val \<times> val) list \<Rightarrow> (val \<times> val) list"
  ToSlice :: "val list \<Rightarrow> val list"
  ParseFloat :: "string \<Rightarrow> fpval option"
  regexp_Compile :: "string \<Rightarrow> string + unit"

section \<open>dsl/validation.go\<close>

text \<open>\<^verbatim>\<open>incompatibleAttributeType(validation, actual, expected)\<close>, lines 265-268.\<close>

definition incompatibleAttributeType :: "string \<Rightarrow> string \<Rightarrow> string \<Rightarrow> eval_state \<Rightarrow> eval_state" where
  "incompatibleAttributeType validation actual expected s =
     ReportError (ErrIncompatibleAttributeType validation expected actual) s"

text \<open>
  The idiom \<^verbatim>\<open>if a.Validation == nil { a.Validation = &expr.ValidationExpr{} }\<close> followed by
  an assignment \<open>upd\<close> to a field of \<^verbatim>\<open>a.Validation\<close>.
\<close>

definition zero_ValidationExpr :: ValidationExpr where
  "zero_ValidationExpr =
     \<lparr>Values = None, Format_field = [], Pattern_field = [], Minimum_field = None,
      Maximum_field = None, MinLength_field = None, MaxLength_field = None,
      Required_field = []\<rparr>"

definition set_Validation :: "(ValidationExpr \<Rightarrow> ValidationExpr) \<Rightarrow> AttributeExpr \<Rightarrow> AttributeExpr" where
  "set_Validation upd a =
     a\<lparr>Validation := Some (upd (case Validation a of None \<Rightarrow> zero_ValidationExpr | Some v \<Rightarrow> v))\<rparr>"

subsection \<open>Enum\<close>

text \<open>
  The first loop of \<^verbatim>\<open>Enum\<close> (lines 16-40), from index \<open>i\<close> on: it reports every
  incompatible value and clears \<open>ok\<close>, and goes on to the next value.
\<close>

fun Enum_check :: "externals \<Rightarrow> AttributeExpr \<Rightarrow> nat \<Rightarrow> val list \<Rightarrow> bool \<times> eval_state \<Rightarrow> bool \<times> eval_state" where
  "Enum_check L a i [] (ok, s) = (ok, s)"
| "Enum_check L a i (v # vs) (ok, s) =
     (case Type a of
        None \<Rightarrow> Enum_check L a (Suc i) vs (ok, s)
      | Some t \<Rightarrow>
          if \<not> IsCompatible L t v
          then Enum_check L a (Suc i) vs (False, ReportError (ErrIncompatibleValue v i (Name t)) s)
          else Enum_check L a (Suc i) vs (ok, s))"

text \<open>The type switch of the second loop (lines 47-54).\<close>

fun Enum_value :: "externals \<Rightarrow> val \<Rightarrow> val" where
  "Enum_value L (VMapVal m) = VMap (ToMap L m)"
| "Enum_value L (VArrayVal xs) = VSlice (ToSlice L xs)"
| "Enum_value L v = v"

definition Enum :: "externals \<Rightarrow> val list \<Rightarrow> eval_state \<Rightarrow> eval_state" where
  "Enum L vals s =
     (case Current s of
        Attribute a \<Rightarrow>
          (case Enum_check L a 0 vals (True, s) of
             (ok, s1) \<Rightarrow>
               if ok
               then s1\<lparr>Current :=
                      Attribute (set_Validation (\<lambda>v. v\<lparr>Values := Some (map (Enum_value L) vals)\<rparr>) a)\<rparr>
               else s1)
      | _ \<Rightarrow> s)"

subsection \<open>Format and Pattern\<close>

definition Format :: "externals \<Rightarrow> string \<Rightarrow> eval_state \<Rightarrow> eval_state" where
  "Format L f s =
     (case Current s of
        Attribute a \<Rightarrow>
          (let s1 = (if \<not> IsSupportedValidationFormat L a f
                     then ReportError (ErrInvalidFormat f) s else s);
               store = s1\<lparr>Current := Attribute (set_Validation (\<lambda>v. v\<lparr>Format_field := f\<rparr>) a)\<rparr>
           in case Type a of
                None \<Rightarrow> store
              | Some t \<Rightarrow>
                  if Kind t \<noteq> StringKind
                  then incompatibleAttributeType ''format'' (Name t) ''a string'' s1
                  else store)
      | _ \<Rightarrow> s)"

definition Pattern :: "externals \<Rightarrow> string \<Rightarrow> eval_state \<Rightarrow> eval_state" where
  "Pattern L p s =
     (case Current s of
        Attribute a \<Rightarrow>
          (let compile =
                 (case regexp_Compile L p of
                    Inl err \<Rightarrow> ReportError (ErrInvalidPattern p err) s
                  | Inr _ \<Rightarrow>
                      s\<lparr>Current := Attribute (set_Validation (\<lambda>v. v\<lparr>Pattern_field := p\<rparr>) a)\<rparr>)
           in case Type a of
                None \<Rightarrow> compile
              | Some t \<Rightarrow>
                  if Kind t \<noteq> StringKind
                  then incompatibleAttributeType ''pattern'' (Name t) ''a string'' s
                  else compile)
      | _ \<Rightarrow> s)"

subsection \<open>Minimum and Maximum\<close>

text \<open>The number of binary digits of a natural number.\<close>

fun bit_length :: "nat \<Rightarrow> nat" where
  "bit_length n = (if n = 0 then 0 else Suc (bit_length (n div 2)))"

declare bit_length.simps [simp del]

text \<open>
  Go's conversion of an integer to \<^verbatim>\<open>float64\<close>: the nearest value with a 53-bit
  significand, ties to even. An integer of at most 64 bits never overflows the exponent.
\<close>

definition float64_of_int :: "int \<Rightarrow> fpval" where
  "float64_of_int n =
     (let m = nat \<bar>n\<bar>;
          sh = bit_length m - 53;
          q = m div 2 ^ sh;
          r = m mod 2 ^ sh;
          q' = (if 2 * r > 2 ^ sh \<or> (2 * r = 2 ^ sh \<and> odd q) then q + 1 else q)
      in Finite (of_int (sgn n * int (q' * 2 ^ sh))))"

text \<open>
  The type switch shared by \<^verbatim>\<open>Minimum\<close> (lines 137-150) and \<^verbatim>\<open>Maximum\<close> (lines 172-185):
  the \<^verbatim>\<open>float64\<close> to store, or \<open>None\<close> where the switch reports
  \<^verbatim>\<open>invalid number value\<close> and returns. \<^verbatim>\<open>uint\<close> is not among the listed types.
\<close>

fun number_value :: "externals \<Rightarrow> val \<Rightarrow> fpval option" where
  "number_value L (VFloat32 x) = Some x"
| "number_value L (VFloat64 x) = Some x"
| "number_value L (VInt w) = Some (float64_of_int (sint w))"
| "number_value L (VInt8 w) = Some (float64_of_int (sint w))"
| "number_value L (VInt16 w) = Some (float64_of_int (sint w))"
| "number_value L (VInt32 w) = Some (float64_of_int (sint w))"
| "number_value L (VInt64 w) = Some (float64_of_int (sint w))"
| "number_value L (VUint8 w) = Some (float64_of_int (uint w))"
| "number_value L (VUint16 w) = Some (float64_of_int (uint w))"
| "number_value L (VUint32 w) = Some (float64_of_int (uint w))"
| "number_value L (VUint64 w) = Some (float64_of_int (uint w))"
| "number_value L (VString str) = ParseFloat L str"
| "number_value L v = None"

text \<open>The kind test of \<^verbatim>\<open>Minimum\<close> and \<^verbatim>\<open>Maximum\<close> (lines 128-132 and 163-167).\<close>

definition not_a_number_kind :: "Kind \<Rightarrow> bool" where
  "not_a_number_kind k \<longleftrightarrow>
     k \<noteq> IntKind \<and> k \<noteq> UIntKind \<and> k \<noteq> Int32Kind \<and> k \<noteq> UInt32Kind \<and>
     k \<noteq> Int64Kind \<and> k \<noteq> UInt64Kind \<and> k \<noteq> Float32Kind \<and> k \<noteq> Float64Kind"

definition Minimum :: "externals \<Rightarrow> val \<Rightarrow> eval_state \<Rightarrow> eval_state" where
  "Minimum L val s =
     (case Current s of
        Attribute a \<Rightarrow>
          (let convert =
                 (case number_value L val of
                    None \<Rightarrow> ReportError (ErrInvalidNumber val) s
                  | Some f \<Rightarrow>
                      s\<lparr>Current := Attribute (set_Validation (\<lambda>v. v\<lparr>Minimum_field := Some f\<rparr>) a)\<rparr>)
           in case Type a of
                None \<Rightarrow> convert
              | Some t \<Rightarrow>
                  if not_a_number_kind (Kind t)
                  then incompatibleAttributeType ''minimum'' (Name t) ''an integer or a number'' s
                  else convert)
      | _ \<Rightarrow> s)"

definition Maximum :: "externals \<Rightarrow> val \<Rightarrow> eval_state \<Rightarrow> eval_state" where
  "Maximum L val s =
     (case Current s of
        Attribute a \<Rightarrow>
          (let convert =
                 (case number_value L val of
                    None \<Rightarrow> ReportError (ErrInvalidNumber val) s
                  | Some f \<Rightarrow>
                      s\<lparr>Current := Attribute (set_Validation (\<lambda>v. v\<lparr>Maximum_field := Some f\<rparr>) a)\<rparr>)
           in case Type a of
                None \<Rightarrow> convert
              | Some t \<Rightarrow>
                  if not_a_number_kind (Kind t)
                  then incompatibleAttributeType ''maximum'' (Name t) ''an integer or a number'' s
                  else convert)
      | _ \<Rightarrow> s)"

subsection \<open>MinLength and MaxLength\<close>

text \<open>The kind test of \<^verbatim>\<open>MinLength\<close> and \<^verbatim>\<open>MaxLength\<close> (lines 200-203 and 222-225).\<close>

definition not_a_length_kind :: "Kind \<Rightarrow> bool" where
  "not_a_length_kind kind \<longleftrightarrow>
     kind \<noteq> BytesKind \<and> kind \<noteq> StringKind \<and> kind \<noteq> ArrayKind \<and> kind \<noteq> MapKind"

definition MinLength :: "64 word \<Rightarrow> eval_state \<Rightarrow> eval_state" where
  "MinLength val s =
     (case Current s of
        Attribute a \<Rightarrow>
          (let store = s\<lparr>Current := Attribute (set_Validation (\<lambda>v. v\<lparr>MinLength_field := Some val\<rparr>) a)\<rparr>
           in case Type a of
                None \<Rightarrow> store
              | Some t \<Rightarrow>
                  if not_a_length_kind (Kind t)
                  then incompatibleAttributeType ''minimum length'' (Name t) ''a string or an array'' s
                  else store)
      | _ \<Rightarrow> s)"

definition MaxLength :: "64 word \<Rightarrow> eval_state \<Rightarrow> eval_state" where
  "MaxLength val s =
     (case Current s of
        Attribute a \<Rightarrow>
          (let store = s\<lparr>Current := Attribute (set_Validation (\<lambda>v. v\<lparr>MaxLength_field := Some val\<rparr>) a)\<rparr>
           in case Type a of
                None \<Rightarrow> store
              | Some t \<Rightarrow>
                  if not_a_length_kind (Kind t)
                  then incompatibleAttributeType ''maximum length'' (Name t) ''a string or an array'' s
                  else store)
      | _ \<Rightarrow> s)"

subsection \<open>Required\<close>

text \<open>
  Modelled from the spec: the method \<^verbatim>\<open>ValidationExpr.AddRequired\<close> is not part of the
  verified sources. It "appends \<open>names\<close> to the accumulated required-name set,
  deduplicating is the caller's responsibility (not enforced here)".
\<close>

definition AddRequired :: "string list \<Rightarrow> ValidationExpr \<Rightarrow> ValidationExpr" where
  "AddRequired names v = v\<lparr>Required_field := Required_field v @ names\<rparr>"

text \<open>
  The body of \<^verbatim>\<open>Required\<close> after the type switch (lines 253-260), on the attribute \<open>att\<close>;
  \<open>put\<close> writes the attribute back to where the switch took it from.
\<close>

definition Required_at :: "string list \<Rightarrow> AttributeExpr \<Rightarrow> (AttributeExpr \<Rightarrow> Expression) \<Rightarrow> eval_state \<Rightarrow> eval_state" where
  "Required_at names att put s =
     (let add = s\<lparr>Current := put (set_Validation (AddRequired names) att)\<rparr>
      in case Type att of
           None \<Rightarrow> add
         | Some t \<Rightarrow>
             if Kind t \<noteq> ObjectKind
             then incompatibleAttributeType ''required'' (Name t) ''an object'' s
             else add)"

definition Required :: "string list \<Rightarrow> eval_state \<Rightarrow> eval_state" where
  "Required names s =
     (case Current s of
        Attribute def \<Rightarrow> Required_at names def Attribute s
      | ResultType def \<Rightarrow> Required_at names def ResultType s
      | _ \<Rightarrow> IncompatibleDSL s)"

section \<open>Meta\<close>

text \<open>The closure \<^verbatim>\<open>appendMeta\<close> of \<^verbatim>\<open>Meta\<close> (lines 131-137).\<close>

definition appendMeta :: "MetaExpr \<Rightarrow> string \<Rightarrow> string list \<Rightarrow> MetaExpr" where
  "appendMeta meta name value =
     (let m = (case meta of None \<Rightarrow> Map.empty | Some m \<Rightarrow> m)
      in Some (m(name \<mapsto> (case m name of None \<Rightarrow> [] | Some old \<Rightarrow> old) @ value)))"

definition Meta :: "string \<Rightarrow> string list \<Rightarrow> eval_state \<Rightarrow> eval_state" where
  "Meta name value s =
     (case Current s of
        Composite att \<Rightarrow>
          s\<lparr>Current := Composite (att\<lparr>Meta_field := appendMeta (Meta_field att) name value\<rparr>)\<rparr>
      | Attribute e \<Rightarrow>
          s\<lparr>Current := Attribute (e\<lparr>Meta_field := appendMeta (Meta_field e) name value\<rparr>)\<rparr>
      | ResultType e \<Rightarrow>
          s\<lparr>Current := ResultType (e\<lparr>Meta_field := appendMeta (Meta_field e) name value\<rparr>)\<rparr>
      | Method m \<Rightarrow> s\<lparr>Current := Method (appendMeta m name value)\<rparr>
      | Service m \<Rightarrow> s\<lparr>Current := Service (appendMeta m name value)\<rparr>
      | API m \<Rightarrow> s\<lparr>Current := API (appendMeta m name value)\<rparr>
      | Other \<Rightarrow> IncompatibleDSL s)"

section \<open>Observations and sample inputs\<close>

text \<open>
  The types listed in the first case of the type switch of \<^verbatim>\<open>Minimum\<close> and \<^verbatim>\<open>Maximum\<close>
  (lines 138 and 173), and the type of its second case.
\<close>

fun listed_number :: "val \<Rightarrow> bool" where
  "listed_number (VFloat32 _) = True"
| "listed_number (VFloat64 _) = True"
| "listed_number (VInt _) = True"
| "listed_number (VInt8 _) = True"
| "listed_number (VInt16 _) = True"
| "listed_number (VInt32 _) = True"
| "listed_number (VInt64 _) = True"
| "listed_number (VUint8 _) = True"
| "listed_number (VUint16 _) = True"
| "listed_number (VUint32 _) = True"
| "listed_number (VUint64 _) = True"
| "listed_number _ = False"

fun is_string :: "val \<Rightarrow> bool" where
  "is_string (VString _) = True"
| "is_string _ = False"

text \<open>
  The metadata record of a node, and the sequence stored under a key (Go's \<^verbatim>\<open>meta[k]\<close>,
  empty for a nil map or a missing key).
\<close>

definition node_Meta :: "Expression \<Rightarrow> MetaExpr" where
  "node_Meta e =
     (case e of
        Composite a \<Rightarrow> Meta_field a
      | Attribute a \<Rightarrow> Meta_field a
      | ResultType a \<Rightarrow> Meta_field a
      | Method m \<Rightarrow> m
      | Service m \<Rightarrow> m
      | API m \<Rightarrow> m
      | Other \<Rightarrow> None)"

definition Meta_values :: "MetaExpr \<Rightarrow> string \<Rightarrow> string list" where
  "Meta_values meta k =
     (case meta of None \<Rightarrow> [] | Some m \<Rightarrow> (case m k of None \<Rightarrow> [] | Some vs \<Rightarrow> vs))"

text \<open>
  A sample instance of the outside functions and sample targets, at which the theorems
  below are instantiated. The sample \<open>IsCompatible\<close> accepts every value for a type of
  kind any, Go \<^verbatim>\<open>int\<close> values for the integer kind and strings for the string kind; the
  sample format test accepts four tags, the sample parser reads the string 42 only and
  the sample compiler rejects the single opening bracket only. The sample conversions
  of \<^verbatim>\<open>MapVal\<close> and \<^verbatim>\<open>ArrayVal\<close> keep the contents.
\<close>

definition sample_externals :: externals where
  "sample_externals =
     \<lparr>IsCompatible = (\<lambda>t v. Kind t = AnyKind \<or>
                               (case v of VInt _ \<Rightarrow> Kind t = IntKind
                                        | VString _ \<Rightarrow> Kind t = StringKind
                                        | _ \<Rightarrow> False)),
      IsSupportedValidationFormat = (\<lambda>a f. f \<in> set [''date'', ''date-time'', ''uuid'', ''email'']),
      ToMap = (\<lambda>m. m),
      ToSlice = (\<lambda>xs. xs),
      ParseFloat = (\<lambda>str. if str = ''42'' then Some (Finite 42) else None),
      regexp_Compile = (\<lambda>p. if p = ''['' then Inl ''missing closing ]'' else Inr ())\<rparr>"

definition attribute_of :: "DataType option \<Rightarrow> AttributeExpr" where
  "attribute_of t = \<lparr>Type = t, Validation = None, Meta_field = None\<rparr>"

definition at_target :: "Expression \<Rightarrow> eval_state" where
  "at_target e = \<lparr>Current = e, Errors = []\<rparr>"

section \<open>Auxiliary facts\<close>

lemma bit_length_le: "bit_length n \<le> k \<longleftrightarrow> n < 2 ^ k"
proof (induction n arbitrary: k rule: bit_length.induct)
  case (1 n)
  show ?case
  proof (cases "n = 0")
    case True
    then show ?thesis by (simp add: bit_length.simps)
  next
    case False
    show ?thesis
    proof (cases k)
      case 0
      with False show ?thesis by (subst bit_length.simps) simp
    next
      case (Suc k')
      have "bit_length n \<le> Suc k' \<longleftrightarrow> bit_length (n div 2) \<le> k'"
        using False by (subst bit_length.simps) simp
      also have "\<dots> \<longleftrightarrow> n div 2 < 2 ^ k'" using 1 False by simp
      also have "\<dots> \<longleftrightarrow> n < 2 ^ Suc k'" by (simp add: less_mult_imp_div_less) arith
      finally show ?thesis using Suc by simp
    qed
  qed
qed

lemma float64_of_int_exact:
  assumes "\<bar>n\<bar> < 2 ^ 53"
  shows "float64_of_int n = Finite (of_int n)"
proof -
  have "nat \<bar>n\<bar> < 2 ^ 53" using assms by (simp add: nat_less_iff)
  then have sh: "bit_length (nat \<bar>n\<bar>) - 53 = 0" by (simp add: bit_length_le)
  have "sgn n * int (nat \<bar>n\<bar>) = n" by (simp add: mult_sgn_abs)
  then have "(of_int (sgn n * int (nat \<bar>n\<bar>)) :: rat) = of_int n" by (rule arg_cong)
  then show ?thesis
    using sh by (simp add: float64_of_int_def Let_def)
qed

lemma float64_of_int_42: "float64_of_int 42 = Finite 42"
  using float64_of_int_exact [of 42] by simp

lemma bit_length_upper: "n < 2 ^ bit_length n"
  using bit_length_le [of n "bit_length n"] by simp

lemma bit_length_lower: "0 < bit_length n \<Longrightarrow> 2 ^ (bit_length n - 1) \<le> n"
  using bit_length_le [of n "bit_length n - 1"] by (simp add: not_less [symmetric])

lemma round_half_even:
  fixes m sh :: nat
  defines "q \<equiv> m div 2 ^ sh" and "r0 \<equiv> m mod 2 ^ sh"
  defines "q' \<equiv> (if 2 * r0 > 2 ^ sh \<or> (2 * r0 = 2 ^ sh \<and> odd q) then q + 1 else q)"
  shows "2 * \<bar>int m - int (q' * 2 ^ sh)\<bar> \<le> 2 ^ sh \<and>
         (2 * \<bar>int m - int (q' * 2 ^ sh)\<bar> = 2 ^ sh \<longrightarrow> even q')"
proof -
  define P :: nat where "P = 2 ^ sh"
  have m: "m = q * P + r0"
    unfolding q_def r0_def P_def by (rule div_mult_mod_eq [symmetric])
  have r0: "r0 < P"
    by (simp add: r0_def P_def)
  have "2 * \<bar>int m - int (q' * P)\<bar> \<le> int P \<and>
        (2 * \<bar>int m - int (q' * P)\<bar> = int P \<longrightarrow> even q')"
  proof (cases "2 * r0 > P \<or> (2 * r0 = P \<and> odd q)")
    case True
    then have q': "q' = q + 1" by (simp add: q'_def P_def)
    have "int m - int ((q + 1) * P) = int r0 - int P"
      by (simp add: m algebra_simps)
    then have d: "\<bar>int m - int ((q + 1) * P)\<bar> = int P - int r0" using r0 by simp
    have "2 * (int P - int r0) \<le> int P \<and> (2 * (int P - int r0) = int P \<longrightarrow> even (q + 1))"
      using True r0 by auto
    then show ?thesis unfolding q' d by blast
  next
    case False
    then have q': "q' = q" by (simp add: q'_def P_def)
    have d: "\<bar>int m - int (q * P)\<bar> = int r0" by (simp add: m)
    have "2 * int r0 \<le> int P \<and> (2 * int r0 = int P \<longrightarrow> even q)"
      using False r0 by auto
    then show ?thesis unfolding q' d by blast
  qed
  then show ?thesis by (simp add: P_def)
qed

lemma float64_of_int_nearest:
  "\<exists>(k::nat) (e::nat) (r::int).
      float64_of_int n = Finite (of_int r) \<and> \<bar>r\<bar> = int k * 2 ^ e \<and> k \<le> 2 ^ 53 \<and>
      (e = 0 \<or> 2 ^ 52 \<le> k) \<and> 2 * \<bar>n - r\<bar> \<le> 2 ^ e \<and> (2 * \<bar>n - r\<bar> = 2 ^ e \<longrightarrow> even k)"
proof -
  define m where "m = nat \<bar>n\<bar>"
  define sh where "sh = bit_length m - 53"
  define q where "q = m div 2 ^ sh"
  define r0 where "r0 = m mod 2 ^ sh"
  define q' where "q' = (if 2 * r0 > 2 ^ sh \<or> (2 * r0 = 2 ^ sh \<and> odd q) then q + 1 else q)"
  define r where "r = sgn n * int (q' * 2 ^ sh)"
  have val: "float64_of_int n = Finite (of_int r)"
    by (simp add: float64_of_int_def Let_def r_def q'_def r0_def q_def sh_def m_def)
  have rhe: "2 * \<bar>int m - int (q' * 2 ^ sh)\<bar> \<le> 2 ^ sh \<and>
         (2 * \<bar>int m - int (q' * 2 ^ sh)\<bar> = 2 ^ sh \<longrightarrow> even q')"
    unfolding q'_def r0_def q_def by (rule round_half_even)
  have zero: "q' = 0" if "n = 0"
    using that by (simp add: q'_def r0_def q_def m_def)
  have absr: "\<bar>r\<bar> = int q' * 2 ^ sh"
  proof (cases "n = 0")
    case True
    then show ?thesis by (simp add: r_def zero)
  next
    case False
    then show ?thesis by (simp add: r_def abs_mult)
  qed
  have diff: "\<bar>n - r\<bar> = \<bar>int m - int (q' * 2 ^ sh)\<bar>"
  proof (cases "n = 0")
    case True
    then show ?thesis by (simp add: r_def zero m_def)
  next
    case False
    have "n = sgn n * int m" by (simp add: m_def mult_sgn_abs)
    then have "n - r = sgn n * (int m - int (q' * 2 ^ sh))"
      by (simp add: r_def algebra_simps)
    then have "\<bar>n - r\<bar> = \<bar>sgn n\<bar> * \<bar>int m - int (q' * 2 ^ sh)\<bar>"
      by (simp only: abs_mult)
    with False show ?thesis by simp
  qed
  have qlt: "q < 2 ^ 53"
  proof -
    have "bit_length m \<le> sh + 53" by (simp add: sh_def)
    then have "m < 2 ^ (sh + 53)" by (simp add: bit_length_le)
    then have "m < 2 ^ 53 * 2 ^ sh" by (simp add: power_add mult.commute)
    then show ?thesis unfolding q_def by (rule less_mult_imp_div_less)
  qed
  have kle: "q' \<le> 2 ^ 53" using qlt by (simp add: q'_def)
  have norm: "sh = 0 \<or> 2 ^ 52 \<le> q'"
  proof (cases "sh = 0")
    case True
    then show ?thesis by simp
  next
    case False
    then have bl: "bit_length m = sh + 53" by (simp add: sh_def)
    then have "2 ^ (52 + sh) \<le> m" using bit_length_lower [of m] by simp
    then have "2 ^ 52 * 2 ^ sh \<le> m" by (simp add: power_add)
    then have "(2 ^ 52 * 2 ^ sh) div 2 ^ sh \<le> m div 2 ^ sh" by (rule div_le_mono)
    then have "2 ^ 52 \<le> q" by (simp add: q_def)
    then show ?thesis by (simp add: q'_def)
  qed
  from val absr kle norm rhe diff show ?thesis
    by (intro exI [of _ q'] exI [of _ sh] exI [of _ r]) simp
qed

lemma float64_of_int_ties:
  "float64_of_int (2 ^ 53 + 1) = Finite (2 ^ 53)"
  "float64_of_int (2 ^ 53 + 3) = Finite (2 ^ 53 + 4)"
proof -
  have "bit_length (nat \<bar>2 ^ 53 + 1\<bar>) = 54"
    using bit_length_le [of "nat \<bar>2 ^ 53 + 1\<bar>" 54] bit_length_le [of "nat \<bar>2 ^ 53 + 1\<bar>" 53]
    by simp
  then show "float64_of_int (2 ^ 53 + 1) = Finite (2 ^ 53)"
    by (simp add: float64_of_int_def Let_def)
  have "bit_length (nat \<bar>2 ^ 53 + 3\<bar>) = 54"
    using bit_length_le [of "nat \<bar>2 ^ 53 + 3\<bar>" 54] bit_length_le [of "nat \<bar>2 ^ 53 + 3\<bar>" 53]
    by simp
  then show "float64_of_int (2 ^ 53 + 3) = Finite (2 ^ 53 + 4)"
    by (simp add: float64_of_int_def Let_def)
qed

lemma Enum_check_unknown_type:
  "Type a = None \<Longrightarrow> Enum_check L a i vs (ok, s) = (ok, s)"
  by (induction vs arbitrary: i) simp_all

lemma Enum_check_known_type:
  assumes "Type a = Some t"
  shows "Enum_check L a i vs (ok, s) =
           (ok \<and> (\<forall>v \<in> set vs. IsCompatible L t v),
            s\<lparr>Errors := Errors s @
                 map (\<lambda>(j, v). ErrIncompatibleValue v j (Name t))
                   (filter (\<lambda>(j, v). \<not> IsCompatible L t v) (enumerate i vs))\<rparr>)"
  using assms
proof (induction vs arbitrary: i ok s)
  case Nil
  then show ?case by simp
next
  case (Cons v vs)
  show ?case
  proof (cases "IsCompatible L t v")
    case True
    with Cons show ?thesis by simp
  next
    case False
    with Cons show ?thesis by (simp add: ReportError_def)
  qed
qed

lemma Enum_check_all_compatible:
  "Type a = Some t \<Longrightarrow> \<forall>v \<in> set vs. IsCompatible L t v \<Longrightarrow>
     Enum_check L a i vs (ok, s) = (ok, s)"
  by (induction vs arbitrary: i) simp_all

lemma Enum_success:
  assumes "Current s = Attribute a"
    and "\<forall>t. Type a = Some t \<longrightarrow> (\<forall>v \<in> set vals. IsCompatible L t v)"
  shows "Enum L vals s =
           s\<lparr>Current := Attribute (set_Validation (\<lambda>v. v\<lparr>Values := Some (map (Enum_value L) vals)\<rparr>) a)\<rparr>"
proof (cases "Type a")
  case None
  with assms(1) show ?thesis by (simp add: Enum_def Enum_check_unknown_type)
next
  case (Some t)
  with assms show ?thesis by (simp add: Enum_def Enum_check_all_compatible)
qed

lemma Enum_value_cases:
  "Enum_value L v =
     (case v of VMapVal m \<Rightarrow> VMap (ToMap L m) | VArrayVal xs \<Rightarrow> VSlice (ToSlice L xs) | _ \<Rightarrow> v)"
  by (cases v) simp_all

lemma number_value_unlisted:
  "\<not> listed_number x \<Longrightarrow> \<not> is_string x \<Longrightarrow> number_value L x = None"
  by (cases x) simp_all

lemma Minimum_on_attribute:
  assumes "Current s = Attribute a"
    and "\<forall>t. Type a = Some t \<longrightarrow> \<not> not_a_number_kind (Kind t)"
  shows "Minimum L x s =
           (case number_value L x of
              None \<Rightarrow> s\<lparr>Errors := Errors s @ [ErrInvalidNumber x]\<rparr>
            | Some f \<Rightarrow>
                s\<lparr>Current := Attribute (set_Validation (\<lambda>v. v\<lparr>Minimum_field := Some f\<rparr>) a)\<rparr>)"
  using assms by (simp add: Minimum_def Let_def ReportError_def split: option.splits)

lemma Maximum_on_attribute:
  assumes "Current s = Attribute a"
    and "\<forall>t. Type a = Some t \<longrightarrow> \<not> not_a_number_kind (Kind t)"
  shows "Maximum L x s =
           (case number_value L x of
              None \<Rightarrow> s\<lparr>Errors := Errors s @ [ErrInvalidNumber x]\<rparr>
            | Some f \<Rightarrow>
                s\<lparr>Current := Attribute (set_Validation (\<lambda>v. v\<lparr>Maximum_field := Some f\<rparr>) a)\<rparr>)"
  using assms by (simp add: Maximum_def Let_def ReportError_def split: option.splits)

lemma Required_at_twice:
  assumes "\<forall>t. Type a = Some t \<longrightarrow> Kind t = ObjectKind"
  shows "Required_at n2 (set_Validation (AddRequired n1) a) put (s\<lparr>Current := put (set_Validation (AddRequired n1) a)\<rparr>) =
           s\<lparr>Current := put (set_Validation (\<lambda>v. v\<lparr>Required_field := Required_field v @ n1 @ n2\<rparr>) a)\<rparr>"
  using assms
  by (cases "Validation a")
     (auto simp add: Required_at_def set_Validation_def AddRequired_def Let_def split: option.splits)

lemma Meta_values_appendMeta:
  "Meta_values (appendMeta meta k vs) k' =
     (if k' = k then Meta_values meta k @ vs else Meta_values meta k')"
  by (cases meta) (simp_all add: Meta_values_def appendMeta_def Let_def split: option.splits)

lemma node_Meta_Meta:
  "Current s \<noteq> Other \<Longrightarrow>
     node_Meta (Current (Meta k vs s)) = appendMeta (node_Meta (Current s)) k vs \<and>
     Errors (Meta k vs s) = Errors s \<and> Current (Meta k vs s) \<noteq> Other"
  by (cases "Current s") (simp_all add: Meta_def node_Meta_def)

section \<open>The claims\<close>

subsection \<open>C1\<close>

text \<open>
  C1, what the code does where the claim fails. When the current target is not a plain
  attribute, \<^verbatim>\<open>Enum\<close>, \<^verbatim>\<open>Format\<close>, \<^verbatim>\<open>Pattern\<close>, \<^verbatim>\<open>Minimum\<close>, \<^verbatim>\<open>Maximum\<close>, \<^verbatim>\<open>MinLength\<close> and
  \<^verbatim>\<open>MaxLength\<close> do nothing at all: the type assertion that guards their body has no else
  branch, so no failure is reported and the state is unchanged. \<^verbatim>\<open>Required\<close>, when the
  target is neither a plain attribute nor a result type, reports the incompatible-target
  failure and leaves the target unchanged, as \<^verbatim>\<open>Meta\<close> does on a target it does not accept.
\<close>

theorem non_attribute_target:
  assumes "\<forall>a. Current s \<noteq> Attribute a"
  shows "Enum L vals s = s \<and> Format L f s = s \<and> Pattern L p s = s \<and>
         Minimum L x s = s \<and> Maximum L x s = s \<and> MinLength n s = s \<and> MaxLength n s = s \<and>
         ((\<forall>a. Current s \<noteq> ResultType a) \<longrightarrow>
            Required names s = s\<lparr>Errors := Errors s @ [ErrIncompatibleDSL]\<rparr>)"
  using assms
  by (cases "Current s")
     (simp_all add: Enum_def Format_def Pattern_def Minimum_def Maximum_def MinLength_def
        MaxLength_def Required_def IncompatibleDSL_def ReportError_def)

theorem non_attribute_target_witness:
  "(\<forall>a. Current (at_target (Service None)) \<noteq> Attribute a) \<and>
   Enum sample_externals [VInt 1] (at_target (Service None)) = at_target (Service None) \<and>
   Format sample_externals ''email'' (at_target (Service None)) = at_target (Service None) \<and>
   Pattern sample_externals ''a+'' (at_target (Service None)) = at_target (Service None) \<and>
   Minimum sample_externals (VInt 1) (at_target (Service None)) = at_target (Service None) \<and>
   Maximum sample_externals (VInt 1) (at_target (Service None)) = at_target (Service None) \<and>
   MinLength 3 (at_target (Service None)) = at_target (Service None) \<and>
   MaxLength 3 (at_target (Service None)) = at_target (Service None) \<and>
   Required [''a''] (at_target (Service None)) =
     \<lparr>Current = Service None, Errors = [ErrIncompatibleDSL]\<rparr>"
  using non_attribute_target [of "at_target (Service None)" sample_externals "[VInt 1]" "''email''"
      "''a+''" "VInt 1" 3 "[''a'']"]
  by (simp add: at_target_def)

text \<open>
  The failing input of C1: on a service target \<^verbatim>\<open>Enum\<close> and \<^verbatim>\<open>MinLength\<close> report no
  failure.
\<close>

theorem non_attribute_target_not_reported:
  "Errors (Enum sample_externals [VInt 1] (at_target (Service None))) = [] \<and>
   Errors (MinLength 3 (at_target (Service None))) = []"
  by (simp add: Enum_def MinLength_def at_target_def)

subsection \<open>C2\<close>

text \<open>
  C2, what the code does where the claim fails. \<^verbatim>\<open>Format\<close> with a tag outside the supported
  set, on a plain attribute whose type is unknown or of string kind, reports the
  invalid-format error and then stores the tag in the \<^verbatim>\<open>Format\<close> field all the same: the
  report is not followed by a return.
\<close>

theorem Format_unsupported_stored:
  assumes "Current s = Attribute a"
    and "\<not> IsSupportedValidationFormat L a f"
    and "Type a = None \<or> (\<exists>t. Type a = Some t \<and> Kind t = StringKind)"
  shows "Format L f s =
           s\<lparr>Current := Attribute (set_Validation (\<lambda>v. v\<lparr>Format_field := f\<rparr>) a),
             Errors := Errors s @ [ErrInvalidFormat f]\<rparr>"
  using assms by (auto simp add: Format_def Let_def ReportError_def)

theorem Format_unsupported_stored_witness:
  "\<not> IsSupportedValidationFormat sample_externals (attribute_of None) ''bogus'' \<and>
   Format sample_externals ''bogus'' (at_target (Attribute (attribute_of None))) =
     \<lparr>Current = Attribute \<lparr>Type = None,
          Validation = Some (zero_ValidationExpr\<lparr>Format_field := ''bogus''\<rparr>),
          Meta_field = None\<rparr>,
      Errors = [ErrInvalidFormat ''bogus'']\<rparr>"
  using Format_unsupported_stored [of "at_target (Attribute (attribute_of None))" "attribute_of None"
      sample_externals "''bogus''"]
  by (simp add: at_target_def attribute_of_def sample_externals_def set_Validation_def)

subsection \<open>C3\<close>

text \<open>
  C3. \<^verbatim>\<open>Enum\<close> on a plain attribute of known type reports, after the errors already there,
  one error for each incompatible value, in order, carrying the value, its index and the
  name of the type: the check goes through all the values. If at least one value is
  incompatible the target is unchanged, so no value is stored.
\<close>

theorem Enum_incompatible_values:
  assumes "Current s = Attribute a" and "Type a = Some t"
  shows "Errors (Enum L vals s) =
           Errors s @ map (\<lambda>(i, v). ErrIncompatibleValue v i (Name t))
                        (filter (\<lambda>(i, v). \<not> IsCompatible L t v) (enumerate 0 vals)) \<and>
         ((\<exists>v \<in> set vals. \<not> IsCompatible L t v) \<longrightarrow> Current (Enum L vals s) = Current s)"
  using assms by (simp add: Enum_def Enum_check_known_type)

theorem Enum_incompatible_values_witness:
  "Errors (Enum sample_externals [VInt 1, VString ''two'', VInt 3]
     (at_target (Attribute (attribute_of (Some \<lparr>Kind = IntKind, Name = ''int''\<rparr>))))) =
     [ErrIncompatibleValue (VString ''two'') 1 ''int''] \<and>
   Current (Enum sample_externals [VInt 1, VString ''two'', VInt 3]
     (at_target (Attribute (attribute_of (Some \<lparr>Kind = IntKind, Name = ''int''\<rparr>))))) =
     Attribute (attribute_of (Some \<lparr>Kind = IntKind, Name = ''int''\<rparr>))"
  using Enum_incompatible_values [of
      "at_target (Attribute (attribute_of (Some \<lparr>Kind = IntKind, Name = ''int''\<rparr>)))"
      "attribute_of (Some \<lparr>Kind = IntKind, Name = ''int''\<rparr>)" "\<lparr>Kind = IntKind, Name = ''int''\<rparr>"
      sample_externals "[VInt 1, VString ''two'', VInt 3]"]
  by (simp add: at_target_def attribute_of_def sample_externals_def)

subsection \<open>C4\<close>

text \<open>
  C4. On a plain attribute whose type is unknown or of a numeric kind, \<^verbatim>\<open>Minimum\<close> and
  \<^verbatim>\<open>Maximum\<close> store the \<^verbatim>\<open>float64\<close> of their argument: a \<^verbatim>\<open>float32\<close> or \<^verbatim>\<open>float64\<close> by its
  value, an integer of one of the listed signed or unsigned types by its conversion, and
  a string by what the parser returns for it; a string that the parser rejects is
  reported as an invalid number and the target, and so the field, stays as it was. The
  conversion of an integer is its rounding to a 53-bit significand, to nearest and ties
  to even: the result is a multiple \<open>k * 2 ^ e\<close> with \<open>k\<close> at most \<open>2 ^ 53\<close> and, unless
  \<open>e\<close> is zero, at least \<open>2 ^ 52\<close>, at most half of \<open>2 ^ e\<close> away from the integer, with
  \<open>k\<close> even when exactly half away; below \<open>2 ^ 53\<close> in magnitude it is exact. So the
  arguments 42 (an \<^verbatim>\<open>int\<close>), 42.0 (a \<^verbatim>\<open>float64\<close>) and, with a parser that reads it as 42.0,
  the string 42 all store 42.0, and the string not-a-number, which the parser rejects,
  is reported.
\<close>

theorem Minimum_Maximum_normalize:
  assumes "Current s = Attribute a"
    and "\<forall>t. Type a = Some t \<longrightarrow> \<not> not_a_number_kind (Kind t)"
  shows "(\<forall>x f. (case x of
               VFloat32 y \<Rightarrow> Some y
             | VFloat64 y \<Rightarrow> Some y
             | VInt w \<Rightarrow> Some (float64_of_int (sint w))
             | VInt8 w \<Rightarrow> Some (float64_of_int (sint w))
             | VInt16 w \<Rightarrow> Some (float64_of_int (sint w))
             | VInt32 w \<Rightarrow> Some (float64_of_int (sint w))
             | VInt64 w \<Rightarrow> Some (float64_of_int (sint w))
             | VUint8 w \<Rightarrow> Some (float64_of_int (uint w))
             | VUint16 w \<Rightarrow> Some (float64_of_int (uint w))
             | VUint32 w \<Rightarrow> Some (float64_of_int (uint w))
             | VUint64 w \<Rightarrow> Some (float64_of_int (uint w))
             | _ \<Rightarrow> None) = Some f \<longrightarrow>
            Minimum L x s = s\<lparr>Current := Attribute (set_Validation (\<lambda>v. v\<lparr>Minimum_field := Some f\<rparr>) a)\<rparr> \<and>
            Maximum L x s = s\<lparr>Current := Attribute (set_Validation (\<lambda>v. v\<lparr>Maximum_field := Some f\<rparr>) a)\<rparr>) \<and>
         (\<forall>str f. ParseFloat L str = Some f \<longrightarrow>
            Minimum L (VString str) s = s\<lparr>Current := Attribute (set_Validation (\<lambda>v. v\<lparr>Minimum_field := Some f\<rparr>) a)\<rparr> \<and>
            Maximum L (VString str) s = s\<lparr>Current := Attribute (set_Validation (\<lambda>v. v\<lparr>Maximum_field := Some f\<rparr>) a)\<rparr>) \<and>
         (\<forall>str. ParseFloat L str = None \<longrightarrow>
            Minimum L (VString str) s = s\<lparr>Errors := Errors s @ [ErrInvalidNumber (VString str)]\<rparr> \<and>
            Maximum L (VString str) s = s\<lparr>Errors := Errors s @ [ErrInvalidNumber (VString str)]\<rparr>) \<and>
         (\<forall>n. \<exists>(k::nat) (e::nat) (r::int).
            float64_of_int n = Finite (of_int r) \<and> \<bar>r\<bar> = int k * 2 ^ e \<and> k \<le> 2 ^ 53 \<and>
            (e = 0 \<or> 2 ^ 52 \<le> k) \<and> 2 * \<bar>n - r\<bar> \<le> 2 ^ e \<and>
            (2 * \<bar>n - r\<bar> = 2 ^ e \<longrightarrow> even k)) \<and>
         (\<forall>n. \<bar>n\<bar> < 2 ^ 53 \<longrightarrow> float64_of_int n = Finite (of_int n)) \<and>
         (ParseFloat L ''42'' = Some (Finite 42) \<longrightarrow>
            (\<forall>x \<in> {VInt 42, VString ''42'', VFloat64 (Finite 42)}.
               Minimum L x s = s\<lparr>Current := Attribute (set_Validation (\<lambda>v. v\<lparr>Minimum_field := Some (Finite 42)\<rparr>) a)\<rparr> \<and>
               Maximum L x s = s\<lparr>Current := Attribute (set_Validation (\<lambda>v. v\<lparr>Maximum_field := Some (Finite 42)\<rparr>) a)\<rparr>)) \<and>
         (ParseFloat L ''not-a-number'' = None \<longrightarrow>
            Minimum L (VString ''not-a-number'') s = s\<lparr>Errors := Errors s @ [ErrInvalidNumber (VString ''not-a-number'')]\<rparr> \<and>
            Maximum L (VString ''not-a-number'') s = s\<lparr>Errors := Errors s @ [ErrInvalidNumber (VString ''not-a-number'')]\<rparr>)"
proof -
  note on = Minimum_on_attribute [OF assms] Maximum_on_attribute [OF assms]
  have numeric: "\<forall>x f. (case x of
               VFloat32 y \<Rightarrow> Some y
             | VFloat64 y \<Rightarrow> Some y
             | VInt w \<Rightarrow> Some (float64_of_int (sint w))
             | VInt8 w \<Rightarrow> Some (float64_of_int (sint w))
             | VInt16 w \<Rightarrow> Some (float64_of_int (sint w))
             | VInt32 w \<Rightarrow> Some (float64_of_int (sint w))
             | VInt64 w \<Rightarrow> Some (float64_of_int (sint w))
             | VUint8 w \<Rightarrow> Some (float64_of_int (uint w))
             | VUint16 w \<Rightarrow> Some (float64_of_int (uint w))
             | VUint32 w \<Rightarrow> Some (float64_of_int (uint w))
             | VUint64 w \<Rightarrow> Some (float64_of_int (uint w))
             | _ \<Rightarrow> None) = Some f \<longrightarrow>
            Minimum L x s = s\<lparr>Current := Attribute (set_Validation (\<lambda>v. v\<lparr>Minimum_field := Some f\<rparr>) a)\<rparr> \<and>
            Maximum L x s = s\<lparr>Current := Attribute (set_Validation (\<lambda>v. v\<lparr>Maximum_field := Some f\<rparr>) a)\<rparr>"
  proof (intro allI impI)
    fix x f
    assume "(case x of
               VFloat32 y \<Rightarrow> Some y
             | VFloat64 y \<Rightarrow> Some y
             | VInt w \<Rightarrow> Some (float64_of_int (sint w))
             | VInt8 w \<Rightarrow> Some (float64_of_int (sint w))
             | VInt16 w \<Rightarrow> Some (float64_of_int (sint w))
             | VInt32 w \<Rightarrow> Some (float64_of_int (sint w))
             | VInt64 w \<Rightarrow> Some (float64_of_int (sint w))
             | VUint8 w \<Rightarrow> Some (float64_of_int (uint w))
             | VUint16 w \<Rightarrow> Some (float64_of_int (uint w))
             | VUint32 w \<Rightarrow> Some (float64_of_int (uint w))
             | VUint64 w \<Rightarrow> Some (float64_of_int (uint w))
             | _ \<Rightarrow> None) = Some f"
    then show "Minimum L x s = s\<lparr>Current := Attribute (set_Validation (\<lambda>v. v\<lparr>Minimum_field := Some f\<rparr>) a)\<rparr> \<and>
            Maximum L x s = s\<lparr>Current := Attribute (set_Validation (\<lambda>v. v\<lparr>Maximum_field := Some f\<rparr>) a)\<rparr>"
      by (cases x) (simp_all add: on)
  qed
  have strings: "\<forall>str f. ParseFloat L str = Some f \<longrightarrow>
      Minimum L (VString str) s = s\<lparr>Current := Attribute (set_Validation (\<lambda>v. v\<lparr>Minimum_field := Some f\<rparr>) a)\<rparr> \<and>
      Maximum L (VString str) s = s\<lparr>Current := Attribute (set_Validation (\<lambda>v. v\<lparr>Maximum_field := Some f\<rparr>) a)\<rparr>"
    by (simp add: on)
  have failures: "\<forall>str. ParseFloat L str = None \<longrightarrow>
      Minimum L (VString str) s = s\<lparr>Errors := Errors s @ [ErrInvalidNumber (VString str)]\<rparr> \<and>
      Maximum L (VString str) s = s\<lparr>Errors := Errors s @ [ErrInvalidNumber (VString str)]\<rparr>"
    by (simp add: on)
  have forty_two: "ParseFloat L ''42'' = Some (Finite 42) \<longrightarrow>
      (\<forall>x \<in> {VInt 42, VString ''42'', VFloat64 (Finite 42)}.
         Minimum L x s = s\<lparr>Current := Attribute (set_Validation (\<lambda>v. v\<lparr>Minimum_field := Some (Finite 42)\<rparr>) a)\<rparr> \<and>
         Maximum L x s = s\<lparr>Current := Attribute (set_Validation (\<lambda>v. v\<lparr>Maximum_field := Some (Finite 42)\<rparr>) a)\<rparr>)"
    by (simp add: on float64_of_int_42)
  have not_a_number: "ParseFloat L ''not-a-number'' = None \<longrightarrow>
      Minimum L (VString ''not-a-number'') s = s\<lparr>Errors := Errors s @ [ErrInvalidNumber (VString ''not-a-number'')]\<rparr> \<and>
      Maximum L (VString ''not-a-number'') s = s\<lparr>Errors := Errors s @ [ErrInvalidNumber (VString ''not-a-number'')]\<rparr>"
    by (simp add: on)
  have nearest: "\<forall>n. \<exists>(k::nat) (e::nat) (r::int).
      float64_of_int n = Finite (of_int r) \<and> \<bar>r\<bar> = int k * 2 ^ e \<and> k \<le> 2 ^ 53 \<and>
      (e = 0 \<or> 2 ^ 52 \<le> k) \<and> 2 * \<bar>n - r\<bar> \<le> 2 ^ e \<and>
      (2 * \<bar>n - r\<bar> = 2 ^ e \<longrightarrow> even k)"
    by (rule allI) (rule float64_of_int_nearest)
  have exact: "\<forall>n. \<bar>n\<bar> < 2 ^ 53 \<longrightarrow> float64_of_int n = Finite (of_int n)"
    by (simp add: float64_of_int_exact)
  show ?thesis
    by (intro conjI)
       (fact numeric, fact strings, fact failures, fact nearest, fact exact, fact forty_two,
        fact not_a_number)
qed

theorem Minimum_Maximum_normalize_witness:
  "Minimum sample_externals (VInt 42) (at_target (Attribute (attribute_of None))) =
     \<lparr>Current = Attribute \<lparr>Type = None,
          Validation = Some (zero_ValidationExpr\<lparr>Minimum_field := Some (Finite 42)\<rparr>),
          Meta_field = None\<rparr>, Errors = []\<rparr> \<and>
   Maximum sample_externals (VString ''42'') (at_target (Attribute (attribute_of None))) =
     \<lparr>Current = Attribute \<lparr>Type = None,
          Validation = Some (zero_ValidationExpr\<lparr>Maximum_field := Some (Finite 42)\<rparr>),
          Meta_field = None\<rparr>, Errors = []\<rparr> \<and>
   Minimum sample_externals (VFloat64 (Finite 42)) (at_target (Attribute (attribute_of None))) =
     \<lparr>Current = Attribute \<lparr>Type = None,
          Validation = Some (zero_ValidationExpr\<lparr>Minimum_field := Some (Finite 42)\<rparr>),
          Meta_field = None\<rparr>, Errors = []\<rparr> \<and>
   Minimum sample_externals (VString ''not-a-number'') (at_target (Attribute (attribute_of None))) =
     \<lparr>Current = Attribute (attribute_of None),
      Errors = [ErrInvalidNumber (VString ''not-a-number'')]\<rparr> \<and>
   Maximum sample_externals (VUint8 255) (at_target (Attribute (attribute_of None))) =
     \<lparr>Current = Attribute \<lparr>Type = None,
          Validation = Some (zero_ValidationExpr\<lparr>Maximum_field := Some (Finite 255)\<rparr>),
          Meta_field = None\<rparr>, Errors = []\<rparr> \<and>
   Minimum sample_externals (VInt8 (- 1)) (at_target (Attribute (attribute_of None))) =
     \<lparr>Current = Attribute \<lparr>Type = None,
          Validation = Some (zero_ValidationExpr\<lparr>Minimum_field := Some (Finite (- 1))\<rparr>),
          Meta_field = None\<rparr>, Errors = []\<rparr> \<and>
   float64_of_int (2 ^ 53 + 1) = Finite (2 ^ 53) \<and>
   float64_of_int (2 ^ 53 + 3) = Finite (2 ^ 53 + 4)"
proof -
  have small: "float64_of_int 255 = Finite 255" "float64_of_int (- 1) = Finite (- 1)"
    using float64_of_int_exact [of 255] float64_of_int_exact [of "- 1"] by simp_all
  have parse: "ParseFloat sample_externals ''42'' = Some (Finite 42)"
    "ParseFloat sample_externals ''not-a-number'' = None"
    by (simp_all add: sample_externals_def)
  have cur: "Current (at_target (Attribute (attribute_of None))) = Attribute (attribute_of None)"
    by (simp add: at_target_def)
  have ty: "\<forall>t. Type (attribute_of None) = Some t \<longrightarrow> \<not> not_a_number_kind (Kind t)"
    by (simp add: attribute_of_def)
  note inst = Minimum_Maximum_normalize [OF cur ty, of sample_externals]
  note numeric = inst [THEN conjunct1, rule_format]
  note strings = inst [THEN conjunct2, THEN conjunct1, rule_format]
  note failures = inst [THEN conjunct2, THEN conjunct2, THEN conjunct1, rule_format]
  show ?thesis
    using numeric [of "VInt 42" "Finite 42"] numeric [of "VFloat64 (Finite 42)" "Finite 42"]
      numeric [of "VUint8 255" "Finite 255"] numeric [of "VInt8 (- 1)" "Finite (- 1)"]
      strings [OF parse(1)] failures [OF parse(2)] small float64_of_int_ties
    by (simp add: float64_of_int_42 at_target_def attribute_of_def set_Validation_def)
qed

subsection \<open>C5\<close>

text \<open>
  C5. On every node that \<^verbatim>\<open>Meta\<close> accepts, calling it with key \<open>k\<close> and values \<open>v1\<close> and
  then with \<open>k\<close> and \<open>v2\<close> leaves under \<open>k\<close> what was stored before followed by \<open>v1\<close>
  followed by \<open>v2\<close>, which is \<open>v1\<close> followed by \<open>v2\<close> when nothing was stored before.
  The other keys keep their sequences, the metadata record exists after the first call,
  and no error is reported.
\<close>

theorem Meta_appends:
  assumes "Current s \<noteq> Other"
  shows "Meta_values (node_Meta (Current (Meta k v2 (Meta k v1 s)))) k =
           Meta_values (node_Meta (Current s)) k @ v1 @ v2 \<and>
         (Meta_values (node_Meta (Current s)) k = [] \<longrightarrow>
            Meta_values (node_Meta (Current (Meta k v2 (Meta k v1 s)))) k = v1 @ v2) \<and>
         (\<forall>k'. k' \<noteq> k \<longrightarrow>
            Meta_values (node_Meta (Current (Meta k v2 (Meta k v1 s)))) k' =
              Meta_values (node_Meta (Current s)) k') \<and>
         node_Meta (Current (Meta k v1 s)) \<noteq> None \<and>
         Errors (Meta k v2 (Meta k v1 s)) = Errors s"
proof -
  note one = node_Meta_Meta [OF assms, of k v1]
  then have "Current (Meta k v1 s) \<noteq> Other" by simp
  note two = node_Meta_Meta [OF this, of k v2]
  have "node_Meta (Current (Meta k v1 s)) \<noteq> None"
    using one by (simp add: appendMeta_def Let_def)
  then show ?thesis
    using one two by (simp add: Meta_values_appendMeta)
qed

theorem Meta_appends_witness:
  "Meta_values (node_Meta (Current (Meta ''swagger:tag'' [''b'', ''a'']
     (Meta ''swagger:tag'' [''a''] (at_target (Service None)))))) ''swagger:tag'' = [''a'', ''b'', ''a''] \<and>
   node_Meta (Current (Meta ''swagger:tag'' [''a''] (at_target (Service None)))) \<noteq> None"
  using Meta_appends [of "at_target (Service None)" "''swagger:tag''" "[''b'', ''a'']" "[''a'']"]
  by (simp add: at_target_def node_Meta_def Meta_values_def)

subsection \<open>C6\<close>

text \<open>
  C6. On a plain attribute of unknown type no operation consults the type: whatever the
  compatibility test of the type system would answer, \<^verbatim>\<open>Enum\<close> stores its values,
  \<^verbatim>\<open>Format\<close> stores a supported tag and reports an unsupported one, \<^verbatim>\<open>Pattern\<close> stores an
  expression that compiles and reports one that does not, \<^verbatim>\<open>Minimum\<close> and \<^verbatim>\<open>Maximum\<close> store
  the \<^verbatim>\<open>float64\<close> of a \<^verbatim>\<open>float32\<close>, a \<^verbatim>\<open>float64\<close>, an integer of a listed type or a string
  that parses, and report a string that does not parse and a value of any other type,
  \<^verbatim>\<open>MinLength\<close> and \<^verbatim>\<open>MaxLength\<close> store their argument and \<^verbatim>\<open>Required\<close> adds its names.
\<close>

theorem unknown_type_stores:
  assumes "Current s = Attribute a" and "Type a = None"
  shows "Enum L vals s =
           s\<lparr>Current := Attribute (set_Validation (\<lambda>v. v\<lparr>Values := Some (map (Enum_value L) vals)\<rparr>) a)\<rparr> \<and>
         (IsSupportedValidationFormat L a f \<longrightarrow>
            Format L f s = s\<lparr>Current := Attribute (set_Validation (\<lambda>v. v\<lparr>Format_field := f\<rparr>) a)\<rparr>) \<and>
         (\<not> IsSupportedValidationFormat L a f \<longrightarrow>
            Errors (Format L f s) = Errors s @ [ErrInvalidFormat f]) \<and>
         (regexp_Compile L p = Inr () \<longrightarrow>
            Pattern L p s = s\<lparr>Current := Attribute (set_Validation (\<lambda>v. v\<lparr>Pattern_field := p\<rparr>) a)\<rparr>) \<and>
         (\<forall>err. regexp_Compile L p = Inl err \<longrightarrow>
            Pattern L p s = s\<lparr>Errors := Errors s @ [ErrInvalidPattern p err]\<rparr>) \<and>
         (\<forall>x f. (case x of
               VFloat32 y \<Rightarrow> Some y
             | VFloat64 y \<Rightarrow> Some y
             | VInt w \<Rightarrow> Some (float64_of_int (sint w))
             | VInt8 w \<Rightarrow> Some (float64_of_int (sint w))
             | VInt16 w \<Rightarrow> Some (float64_of_int (sint w))
             | VInt32 w \<Rightarrow> Some (float64_of_int (sint w))
             | VInt64 w \<Rightarrow> Some (float64_of_int (sint w))
             | VUint8 w \<Rightarrow> Some (float64_of_int (uint w))
             | VUint16 w \<Rightarrow> Some (float64_of_int (uint w))
             | VUint32 w \<Rightarrow> Some (float64_of_int (uint w))
             | VUint64 w \<Rightarrow> Some (float64_of_int (uint w))
             | _ \<Rightarrow> None) = Some f \<longrightarrow>
            Minimum L x s = s\<lparr>Current := Attribute (set_Validation (\<lambda>v. v\<lparr>Minimum_field := Some f\<rparr>) a)\<rparr> \<and>
            Maximum L x s = s\<lparr>Current := Attribute (set_Validation (\<lambda>v. v\<lparr>Maximum_field := Some f\<rparr>) a)\<rparr>) \<and>
         (\<forall>str f. ParseFloat L str = Some f \<longrightarrow>
            Minimum L (VString str) s = s\<lparr>Current := Attribute (set_Validation (\<lambda>v. v\<lparr>Minimum_field := Some f\<rparr>) a)\<rparr> \<and>
            Maximum L (VString str) s = s\<lparr>Current := Attribute (set_Validation (\<lambda>v. v\<lparr>Maximum_field := Some f\<rparr>) a)\<rparr>) \<and>
         (\<forall>str. ParseFloat L str = None \<longrightarrow>
            Minimum L (VString str) s = s\<lparr>Errors := Errors s @ [ErrInvalidNumber (VString str)]\<rparr> \<and>
            Maximum L (VString str) s = s\<lparr>Errors := Errors s @ [ErrInvalidNumber (VString str)]\<rparr>) \<and>
         (\<forall>x. \<not> listed_number x \<and> \<not> is_string x \<longrightarrow>
            Minimum L x s = s\<lparr>Errors := Errors s @ [ErrInvalidNumber (x)]\<rparr> \<and>
            Maximum L x s = s\<lparr>Errors := Errors s @ [ErrInvalidNumber (x)]\<rparr>) \<and>
         MinLength n s = s\<lparr>Current := Attribute (set_Validation (\<lambda>v. v\<lparr>MinLength_field := Some n\<rparr>) a)\<rparr> \<and>
         MaxLength n s = s\<lparr>Current := Attribute (set_Validation (\<lambda>v. v\<lparr>MaxLength_field := Some n\<rparr>) a)\<rparr> \<and>
         Required names s = s\<lparr>Current := Attribute (set_Validation (AddRequired names) a)\<rparr>"
proof -
  have compatible: "\<forall>t. Type a = Some t \<longrightarrow> \<not> not_a_number_kind (Kind t)"
    using assms(2) by simp
  note on = Minimum_on_attribute [OF assms(1) compatible] Maximum_on_attribute [OF assms(1) compatible]
  have numeric: "\<forall>x f. (case x of
               VFloat32 y \<Rightarrow> Some y
             | VFloat64 y \<Rightarrow> Some y
             | VInt w \<Rightarrow> Some (float64_of_int (sint w))
             | VInt8 w \<Rightarrow> Some (float64_of_int (sint w))
             | VInt16 w \<Rightarrow> Some (float64_of_int (sint w))
             | VInt32 w \<Rightarrow> Some (float64_of_int (sint w))
             | VInt64 w \<Rightarrow> Some (float64_of_int (sint w))
             | VUint8 w \<Rightarrow> Some (float64_of_int (uint w))
             | VUint16 w \<Rightarrow> Some (float64_of_int (uint w))
             | VUint32 w \<Rightarrow> Some (float64_of_int (uint w))
             | VUint64 w \<Rightarrow> Some (float64_of_int (uint w))
             | _ \<Rightarrow> None) = Some f \<longrightarrow>
            Minimum L x s = s\<lparr>Current := Attribute (set_Validation (\<lambda>v. v\<lparr>Minimum_field := Some f\<rparr>) a)\<rparr> \<and>
            Maximum L x s = s\<lparr>Current := Attribute (set_Validation (\<lambda>v. v\<lparr>Maximum_field := Some f\<rparr>) a)\<rparr>"
  proof (intro allI impI)
    fix x f
    assume "(case x of
               VFloat32 y \<Rightarrow> Some y
             | VFloat64 y \<Rightarrow> Some y
             | VInt w \<Rightarrow> Some (float64_of_int (sint w))
             | VInt8 w \<Rightarrow> Some (float64_of_int (sint w))
             | VInt16 w \<Rightarrow> Some (float64_of_int (sint w))
             | VInt32 w \<Rightarrow> Some (float64_of_int (sint w))
             | VInt64 w \<Rightarrow> Some (float64_of_int (sint w))
             | VUint8 w \<Rightarrow> Some (float64_of_int (uint w))
             | VUint16 w \<Rightarrow> Some (float64_of_int (uint w))
             | VUint32 w \<Rightarrow> Some (float64_of_int (uint w))
             | VUint64 w \<Rightarrow> Some (float64_of_int (uint w))
             | _ \<Rightarrow> None) = Some f"
    then show "Minimum L x s = s\<lparr>Current := Attribute (set_Validation (\<lambda>v. v\<lparr>Minimum_field := Some f\<rparr>) a)\<rparr> \<and>
            Maximum L x s = s\<lparr>Current := Attribute (set_Validation (\<lambda>v. v\<lparr>Maximum_field := Some f\<rparr>) a)\<rparr>"
      by (cases x) (simp_all add: on)
  qed
  have strings: "\<forall>str f. ParseFloat L str = Some f \<longrightarrow>
      Minimum L (VString str) s = s\<lparr>Current := Attribute (set_Validation (\<lambda>v. v\<lparr>Minimum_field := Some f\<rparr>) a)\<rparr> \<and>
      Maximum L (VString str) s = s\<lparr>Current := Attribute (set_Validation (\<lambda>v. v\<lparr>Maximum_field := Some f\<rparr>) a)\<rparr>"
    by (simp add: on)
  have failures: "\<forall>str. ParseFloat L str = None \<longrightarrow>
      Minimum L (VString str) s = s\<lparr>Errors := Errors s @ [ErrInvalidNumber (VString str)]\<rparr> \<and>
      Maximum L (VString str) s = s\<lparr>Errors := Errors s @ [ErrInvalidNumber (VString str)]\<rparr>"
    by (simp add: on)
  have others: "\<forall>x. \<not> listed_number x \<and> \<not> is_string x \<longrightarrow>
            Minimum L x s = s\<lparr>Errors := Errors s @ [ErrInvalidNumber (x)]\<rparr> \<and>
            Maximum L x s = s\<lparr>Errors := Errors s @ [ErrInvalidNumber (x)]\<rparr>"
    by (simp add: on number_value_unlisted)
  have rest: "Enum L vals s =
           s\<lparr>Current := Attribute (set_Validation (\<lambda>v. v\<lparr>Values := Some (map (Enum_value L) vals)\<rparr>) a)\<rparr> \<and>
         (IsSupportedValidationFormat L a f \<longrightarrow>
            Format L f s = s\<lparr>Current := Attribute (set_Validation (\<lambda>v. v\<lparr>Format_field := f\<rparr>) a)\<rparr>) \<and>
         (\<not> IsSupportedValidationFormat L a f \<longrightarrow>
            Errors (Format L f s) = Errors s @ [ErrInvalidFormat f]) \<and>
         (regexp_Compile L p = Inr () \<longrightarrow>
            Pattern L p s = s\<lparr>Current := Attribute (set_Validation (\<lambda>v. v\<lparr>Pattern_field := p\<rparr>) a)\<rparr>) \<and>
         (\<forall>err. regexp_Compile L p = Inl err \<longrightarrow>
            Pattern L p s = s\<lparr>Errors := Errors s @ [ErrInvalidPattern p err]\<rparr>) \<and>
         MinLength n s = s\<lparr>Current := Attribute (set_Validation (\<lambda>v. v\<lparr>MinLength_field := Some n\<rparr>) a)\<rparr> \<and>
         MaxLength n s = s\<lparr>Current := Attribute (set_Validation (\<lambda>v. v\<lparr>MaxLength_field := Some n\<rparr>) a)\<rparr> \<and>
         Required names s = s\<lparr>Current := Attribute (set_Validation (AddRequired names) a)\<rparr>"
    using assms
    by (simp add: Enum_def Enum_check_unknown_type Format_def Pattern_def MinLength_def
          MaxLength_def Required_def Required_at_def Let_def ReportError_def)
  from numeric strings failures others rest show ?thesis by blast
qed

theorem unknown_type_stores_witness:
  "Enum (sample_externals\<lparr>IsCompatible := \<lambda>t v. False\<rparr>) [VInt 1, VString ''two'', VInt 3]
     (at_target (Attribute (attribute_of None))) =
     \<lparr>Current = Attribute \<lparr>Type = None,
          Validation = Some (zero_ValidationExpr\<lparr>Values := Some [VInt 1, VString ''two'', VInt 3]\<rparr>),
          Meta_field = None\<rparr>, Errors = []\<rparr> \<and>
   Format (sample_externals\<lparr>IsCompatible := \<lambda>t v. False\<rparr>) ''email''
     (at_target (Attribute (attribute_of None))) =
     \<lparr>Current = Attribute \<lparr>Type = None,
          Validation = Some (zero_ValidationExpr\<lparr>Format_field := ''email''\<rparr>),
          Meta_field = None\<rparr>, Errors = []\<rparr> \<and>
   Pattern (sample_externals\<lparr>IsCompatible := \<lambda>t v. False\<rparr>) ''a+''
     (at_target (Attribute (attribute_of None))) =
     \<lparr>Current = Attribute \<lparr>Type = None,
          Validation = Some (zero_ValidationExpr\<lparr>Pattern_field := ''a+''\<rparr>),
          Meta_field = None\<rparr>, Errors = []\<rparr> \<and>
   Pattern (sample_externals\<lparr>IsCompatible := \<lambda>t v. False\<rparr>) ''[''
     (at_target (Attribute (attribute_of None))) =
     \<lparr>Current = Attribute (attribute_of None),
      Errors = [ErrInvalidPattern ''['' ''missing closing ]'']\<rparr> \<and>
   Minimum (sample_externals\<lparr>IsCompatible := \<lambda>t v. False\<rparr>) (VInt32 7)
     (at_target (Attribute (attribute_of None))) =
     \<lparr>Current = Attribute \<lparr>Type = None,
          Validation = Some (zero_ValidationExpr\<lparr>Minimum_field := Some (Finite 7)\<rparr>),
          Meta_field = None\<rparr>, Errors = []\<rparr> \<and>
   Maximum (sample_externals\<lparr>IsCompatible := \<lambda>t v. False\<rparr>) (VString ''42'')
     (at_target (Attribute (attribute_of None))) =
     \<lparr>Current = Attribute \<lparr>Type = None,
          Validation = Some (zero_ValidationExpr\<lparr>Maximum_field := Some (Finite 42)\<rparr>),
          Meta_field = None\<rparr>, Errors = []\<rparr> \<and>
   Maximum (sample_externals\<lparr>IsCompatible := \<lambda>t v. False\<rparr>) (VUint 7)
     (at_target (Attribute (attribute_of None))) =
     \<lparr>Current = Attribute (attribute_of None), Errors = [ErrInvalidNumber (VUint 7)]\<rparr> \<and>
   MinLength 3 (at_target (Attribute (attribute_of None))) =
     \<lparr>Current = Attribute \<lparr>Type = None,
          Validation = Some (zero_ValidationExpr\<lparr>MinLength_field := Some 3\<rparr>),
          Meta_field = None\<rparr>, Errors = []\<rparr> \<and>
   MaxLength 254 (at_target (Attribute (attribute_of None))) =
     \<lparr>Current = Attribute \<lparr>Type = None,
          Validation = Some (zero_ValidationExpr\<lparr>MaxLength_field := Some 254\<rparr>),
          Meta_field = None\<rparr>, Errors = []\<rparr> \<and>
   Required [''a''] (at_target (Attribute (attribute_of None))) =
     \<lparr>Current = Attribute \<lparr>Type = None,
          Validation = Some (AddRequired [''a''] zero_ValidationExpr),
          Meta_field = None\<rparr>, Errors = []\<rparr>"
proof -
  have seven: "float64_of_int 7 = Finite 7"
    using float64_of_int_exact [of 7] by simp
  note inst = unknown_type_stores [of "at_target (Attribute (attribute_of None))" "attribute_of None"
      "sample_externals\<lparr>IsCompatible := \<lambda>t v. False\<rparr>"]
  show ?thesis
    using inst [of "[VInt 1, VString ''two'', VInt 3]" "''email''" "''a+''" 3 "[''a'']"]
      inst [of "[]" "''email''" "''[''" 254 "[]"] seven
    by (simp add: at_target_def attribute_of_def sample_externals_def set_Validation_def)
qed

subsection \<open>C7\<close>

text \<open>
  C7. \<^verbatim>\<open>Pattern\<close> on a plain attribute whose type is unknown or of string kind: if the
  expression fails to compile, the error is reported and the target is unchanged, so an
  absent pattern stays absent; if it compiles, the expression is stored as given.
\<close>

theorem Pattern_compile:
  assumes "Current s = Attribute a"
    and "\<forall>t. Type a = Some t \<longrightarrow> Kind t = StringKind"
  shows "(\<forall>err. regexp_Compile L p = Inl err \<longrightarrow>
            Pattern L p s = s\<lparr>Errors := Errors s @ [ErrInvalidPattern p err]\<rparr>) \<and>
         (regexp_Compile L p = Inr () \<longrightarrow>
            Pattern L p s =
              s\<lparr>Current := Attribute (set_Validation (\<lambda>v. v\<lparr>Pattern_field := p\<rparr>) a)\<rparr>)"
  using assms by (simp add: Pattern_def Let_def ReportError_def split: option.splits)

theorem Pattern_compile_witness:
  "Pattern sample_externals ''[''
     (at_target (Attribute (attribute_of (Some \<lparr>Kind = StringKind, Name = ''string''\<rparr>)))) =
     \<lparr>Current = Attribute (attribute_of (Some \<lparr>Kind = StringKind, Name = ''string''\<rparr>)),
      Errors = [ErrInvalidPattern ''['' ''missing closing ]'']\<rparr> \<and>
   Pattern sample_externals ''a+''
     (at_target (Attribute (attribute_of (Some \<lparr>Kind = StringKind, Name = ''string''\<rparr>)))) =
     \<lparr>Current = Attribute \<lparr>Type = Some \<lparr>Kind = StringKind, Name = ''string''\<rparr>,
          Validation = Some (zero_ValidationExpr\<lparr>Pattern_field := ''a+''\<rparr>),
          Meta_field = None\<rparr>, Errors = []\<rparr>"
  using Pattern_compile [of
      "at_target (Attribute (attribute_of (Some \<lparr>Kind = StringKind, Name = ''string''\<rparr>)))"
      "attribute_of (Some \<lparr>Kind = StringKind, Name = ''string''\<rparr>)" sample_externals "''[''"]
    Pattern_compile [of
      "at_target (Attribute (attribute_of (Some \<lparr>Kind = StringKind, Name = ''string''\<rparr>)))"
      "attribute_of (Some \<lparr>Kind = StringKind, Name = ''string''\<rparr>)" sample_externals "''a+''"]
  by (simp add: at_target_def attribute_of_def sample_externals_def set_Validation_def)

subsection \<open>C8\<close>

text \<open>
  C8. On a plain attribute or a result type whose type is unknown or of object kind, two
  calls of \<^verbatim>\<open>Required\<close> leave the names stored before followed by those of the first call
  followed by those of the second, duplicates kept. On a target of any other known kind
  \<^verbatim>\<open>Required\<close> reports the incompatible-type error and leaves the target unchanged.
\<close>

theorem Required_accumulates:
  assumes "put = Attribute \<or> put = ResultType" and "Current s = put a"
  shows "((\<forall>t. Type a = Some t \<longrightarrow> Kind t = ObjectKind) \<longrightarrow>
            Required n2 (Required n1 s) =
              s\<lparr>Current := put (set_Validation (\<lambda>v. v\<lparr>Required_field := Required_field v @ n1 @ n2\<rparr>) a)\<rparr>) \<and>
         (\<forall>t. Type a = Some t \<and> Kind t \<noteq> ObjectKind \<longrightarrow>
            Required n1 s =
              s\<lparr>Errors := Errors s @ [ErrIncompatibleAttributeType ''required'' ''an object'' (Name t)]\<rparr>)"
proof (intro conjI impI allI)
  assume ok: "\<forall>t. Type a = Some t \<longrightarrow> Kind t = ObjectKind"
  have first: "Required n1 s = s\<lparr>Current := put (set_Validation (AddRequired n1) a)\<rparr>"
    using assms ok by (auto simp add: Required_def Required_at_def Let_def split: option.splits)
  have "Required n2 (Required n1 s) =
          Required_at n2 (set_Validation (AddRequired n1) a) put
            (s\<lparr>Current := put (set_Validation (AddRequired n1) a)\<rparr>)"
    using assms(1) by (subst first) (auto simp add: Required_def)
  then show "Required n2 (Required n1 s) =
      s\<lparr>Current := put (set_Validation (\<lambda>v. v\<lparr>Required_field := Required_field v @ n1 @ n2\<rparr>) a)\<rparr>"
    by (simp add: Required_at_twice [OF ok])
next
  fix t assume "Type a = Some t \<and> Kind t \<noteq> ObjectKind"
  then show "Required n1 s =
      s\<lparr>Errors := Errors s @ [ErrIncompatibleAttributeType ''required'' ''an object'' (Name t)]\<rparr>"
    using assms
    by (auto simp add: Required_def Required_at_def Let_def incompatibleAttributeType_def
          ReportError_def)
qed

theorem Required_accumulates_witness:
  "Required [''b'', ''a''] (Required [''a'']
     (at_target (Attribute (attribute_of (Some \<lparr>Kind = ObjectKind, Name = ''object''\<rparr>))))) =
     \<lparr>Current = Attribute \<lparr>Type = Some \<lparr>Kind = ObjectKind, Name = ''object''\<rparr>,
          Validation = Some (zero_ValidationExpr\<lparr>Required_field := [''a'', ''b'', ''a'']\<rparr>),
          Meta_field = None\<rparr>, Errors = []\<rparr> \<and>
   Required [''a''] (at_target (ResultType (attribute_of (Some \<lparr>Kind = StringKind, Name = ''string''\<rparr>)))) =
     \<lparr>Current = ResultType (attribute_of (Some \<lparr>Kind = StringKind, Name = ''string''\<rparr>)),
      Errors = [ErrIncompatibleAttributeType ''required'' ''an object'' ''string'']\<rparr>"
  using Required_accumulates [of Attribute
      "at_target (Attribute (attribute_of (Some \<lparr>Kind = ObjectKind, Name = ''object''\<rparr>)))"
      "attribute_of (Some \<lparr>Kind = ObjectKind, Name = ''object''\<rparr>)" "[''b'', ''a'']" "[''a'']"]
    Required_accumulates [of ResultType
      "at_target (ResultType (attribute_of (Some \<lparr>Kind = StringKind, Name = ''string''\<rparr>)))"
      "attribute_of (Some \<lparr>Kind = StringKind, Name = ''string''\<rparr>)" "[]" "[''a'']"]
  by (simp add: at_target_def attribute_of_def set_Validation_def zero_ValidationExpr_def)

subsection \<open>C9\<close>

text \<open>
  C9, as amended. A successful \<^verbatim>\<open>Enum\<close> call (plain attribute, type unknown or every
  value compatible) stores one value for each supplied value, in the order given: a
  \<^verbatim>\<open>MapVal\<close> is stored as the plain map its \<^verbatim>\<open>ToMap\<close> returns, an \<^verbatim>\<open>ArrayVal\<close> as the plain
  slice its \<^verbatim>\<open>ToSlice\<close> returns, and every other value unmodified.
\<close>

theorem Enum_stored_values:
  assumes "Current s = Attribute a"
    and "\<forall>t. Type a = Some t \<longrightarrow> (\<forall>v \<in> set vals. IsCompatible L t v)"
  shows "Enum L vals s =
           s\<lparr>Current := Attribute (set_Validation (\<lambda>r. r\<lparr>Values := Some (map
                (\<lambda>v. case v of VMapVal m \<Rightarrow> VMap (ToMap L m)
                               | VArrayVal xs \<Rightarrow> VSlice (ToSlice L xs)
                               | _ \<Rightarrow> v) vals)\<rparr>) a)\<rparr>"
proof -
  have "Enum_value L = (\<lambda>v. case v of VMapVal m \<Rightarrow> VMap (ToMap L m)
                               | VArrayVal xs \<Rightarrow> VSlice (ToSlice L xs)
                               | _ \<Rightarrow> v)"
    by (rule ext) (rule Enum_value_cases)
  with Enum_success [OF assms] show ?thesis by simp
qed

theorem Enum_stored_values_witness:
  "Enum sample_externals [VInt 1, VArrayVal [VInt 2], VInt 3]
     (at_target (Attribute (attribute_of (Some \<lparr>Kind = AnyKind, Name = ''any''\<rparr>)))) =
     \<lparr>Current = Attribute \<lparr>Type = Some \<lparr>Kind = AnyKind, Name = ''any''\<rparr>,
          Validation = Some (zero_ValidationExpr\<lparr>Values := Some [VInt 1, VSlice [VInt 2], VInt 3]\<rparr>),
          Meta_field = None\<rparr>, Errors = []\<rparr>"
  using Enum_stored_values [of
      "at_target (Attribute (attribute_of (Some \<lparr>Kind = AnyKind, Name = ''any''\<rparr>)))"
      "attribute_of (Some \<lparr>Kind = AnyKind, Name = ''any''\<rparr>)"
      "[VInt 1, VArrayVal [VInt 2], VInt 3]" sample_externals]
  by (simp add: at_target_def attribute_of_def sample_externals_def set_Validation_def)

text \<open>
  C9 as stated fails: a supplied \<^verbatim>\<open>MapVal\<close> is stored converted to a plain map.
\<close>

theorem Enum_MapVal_not_verbatim:
  "Enum sample_externals [VMapVal []] (at_target (Attribute (attribute_of None))) =
     \<lparr>Current = Attribute \<lparr>Type = None,
          Validation = Some (zero_ValidationExpr\<lparr>Values := Some [VMap []]\<rparr>),
          Meta_field = None\<rparr>, Errors = []\<rparr> \<and>
   [VMap []] \<noteq> [VMapVal []]"
  by (simp add: Enum_def at_target_def attribute_of_def sample_externals_def set_Validation_def)

subsection \<open>C10\<close>

text \<open>
  C10. On a plain attribute whose type is unknown or of a numeric kind, \<^verbatim>\<open>Minimum\<close> and
  \<^verbatim>\<open>Maximum\<close> called with a value that is neither of a listed numeric type nor a string
  report the invalid-number error and leave the target unchanged.
\<close>

theorem Minimum_Maximum_invalid_number:
  assumes "Current s = Attribute a"
    and "\<forall>t. Type a = Some t \<longrightarrow> \<not> not_a_number_kind (Kind t)"
    and "\<not> listed_number x" and "\<not> is_string x"
  shows "Minimum L x s = s\<lparr>Errors := Errors s @ [ErrInvalidNumber x]\<rparr> \<and>
         Maximum L x s = s\<lparr>Errors := Errors s @ [ErrInvalidNumber x]\<rparr>"
  using assms(3,4)
  by (simp add: Minimum_on_attribute [OF assms(1,2)] Maximum_on_attribute [OF assms(1,2)]
        number_value_unlisted)

theorem Minimum_Maximum_invalid_number_witness:
  "\<not> listed_number (VBool True) \<and> \<not> is_string (VBool True) \<and>
   Minimum sample_externals (VBool True)
     (at_target (Attribute (attribute_of (Some \<lparr>Kind = Float64Kind, Name = ''float64''\<rparr>)))) =
     \<lparr>Current = Attribute (attribute_of (Some \<lparr>Kind = Float64Kind, Name = ''float64''\<rparr>)),
      Errors = [ErrInvalidNumber (VBool True)]\<rparr> \<and>
   Maximum sample_externals (VBool True)
     (at_target (Attribute (attribute_of (Some \<lparr>Kind = Float64Kind, Name = ''float64''\<rparr>)))) =
     \<lparr>Current = Attribute (attribute_of (Some \<lparr>Kind = Float64Kind, Name = ''float64''\<rparr>)),
      Errors = [ErrInvalidNumber (VBool True)]\<rparr>"
  using Minimum_Maximum_invalid_number [of
      "at_target (Attribute (attribute_of (Some \<lparr>Kind = Float64Kind, Name = ''float64''\<rparr>)))"
      "attribute_of (Some \<lparr>Kind = Float64Kind, Name = ''float64''\<rparr>)" "VBool True" sample_externals]
  by (simp add: at_target_def attribute_of_def not_a_number_kind_def)

end
